theory Spec2Isabelle
  imports Main "HOL-Library.Char_ord" "HOL-Library.List_Lexorder"
begin

section \<open>The client dispatcher of lib/client.js\<close>

text \<open>
  A shallow embedding of \<^verbatim>\<open>AWS.Client\<close> (lib/client.js): version resolution, retry
  policy, endpoint selection, class loading and request construction.

  JavaScript strings are \<^typ>\<open>string\<close>; they are compared with the lexicographic order
  on character codes, as \<^verbatim>\<open><=\<close> and \<^verbatim>\<open>Array.prototype.sort\<close> do on strings.
  A property that may be \<^verbatim>\<open>undefined\<close> is an \<^typ>\<open>'a option\<close>. Retry counts are
  natural numbers and HTTP status codes integers; the retry delays are JavaScript
  numbers, which overflow to \<^verbatim>\<open>Infinity\<close>.
\<close>

subsection \<open>Values\<close>

text \<open>\<^verbatim>\<open>new Error(message)\<close>, the \<^verbatim>\<open>TypeError\<close> of the engine (a property of
  \<^verbatim>\<open>undefined\<close>, a call of what is no function, an object without primitive value)
  and its \<^verbatim>\<open>RangeError\<close> for a call stack that is exhausted.\<close>

datatype error = Error string | TypeError string | RangeError string

text \<open>How \<^verbatim>\<open>+\<close> renders an operand that may be undefined.\<close>

definition js_string :: "string option \<Rightarrow> string" where
  "js_string v = (case v of None \<Rightarrow> ''undefined'' | Some s \<Rightarrow> s)"

text \<open>The test \<^verbatim>\<open>if (v)\<close> on a string that may be undefined: \<^verbatim>\<open>undefined\<close> and the
  empty string are falsy, every other string is truthy.\<close>

definition truthy :: "string option \<Rightarrow> bool" where
  "truthy v = (case v of None \<Rightarrow> False | Some s \<Rightarrow> s \<noteq> [])"

text \<open>
  A requested API version: left out, a string, or a \<^verbatim>\<open>Date\<close>. A date is carried as the
  text \<^verbatim>\<open>AWS.util.date.iso8601\<close> prints for it (that helper is not part of client.js).
\<close>

datatype version = Undefined | Str string | Date string

fun falsy :: "version \<Rightarrow> bool" where
  "falsy Undefined = True"
| "falsy (Str s) = (s = [])"
| "falsy (Date d) = False"

subsection \<open>API descriptors, classes and the version registry\<close>

record api =
  format :: "string option"
  globalEndpoint :: "string option"
  endpointPrefix :: "string option"
  operations :: "string list option"

text \<open>\<^verbatim>\<open>api: {}\<close> on the prototype.\<close>

definition empty_api :: api where
  "empty_api = \<lparr>format = None, globalEndpoint = None, endpointPrefix = None, operations = None\<rparr>"


text \<open>
  A class made by \<^verbatim>\<open>defineClientApi\<close>: the service it belongs to, the descriptor bound
  to its prototype and the operation methods \<^verbatim>\<open>defineMethods\<close> added. The class is a
  function object made by \<^verbatim>\<open>AWS.util.inherit\<close>, which is not part of client.js;
  \<open>class_arity\<close> is its \<^verbatim>\<open>length\<close>, the number of parameters it declares.
\<close>

record client_class =
  class_serviceIdentifier :: "string option"
  class_api :: api
  class_methods :: "string list"
  class_arity :: nat

text \<open>
  \<^verbatim>\<open>constructor.clients\<close> is a plain object: \<^verbatim>\<open>defineClient\<close> stores \<^verbatim>\<open>null\<close> under
  every version and \<^verbatim>\<open>defineClientApi\<close> replaces it by the loaded class. The object
  has its own properties, in the order they were made, and a prototype:
  \<^verbatim>\<open>Object.prototype\<close> for the object literal, until an assignment to the name
  \<^verbatim>\<open>__proto__\<close> replaces it by \<^verbatim>\<open>null\<close> or by a class.
\<close>

datatype entry = Null | Class client_class

datatype prototype = Object_prototype | Null_prototype | Function_prototype client_class

record registry =
  own :: "(string \<times> entry) list"
  proto :: prototype

text \<open>The abstract client class (\<^verbatim>\<open>this.constructor\<close>). \<open>features\<close> are the names
  of the truthy members its prototype has on top of those of \<^verbatim>\<open>AWS.Client\<close>: the
  features given to \<^verbatim>\<open>defineClient\<close>.\<close>

record service =
  clients :: "registry option"
  serviceIdentifier :: "string option"
  features :: "string list"

text \<open>Writing an own property.\<close>

fun put :: "(string \<times> entry) list \<Rightarrow> string \<Rightarrow> entry \<Rightarrow> (string \<times> entry) list" where
  "put [] k v = [(k, v)]"
| "put ((k', v') # ps) k v = (if k' = k then (k, v) # ps else (k', v') # put ps k v)"

text \<open>
  \<^verbatim>\<open>clients[k] = v\<close>. An own property is overwritten. Otherwise the name
  \<^verbatim>\<open>__proto__\<close> reaches the setter of \<^verbatim>\<open>Object.prototype\<close>, unless the prototype is
  \<^verbatim>\<open>null\<close>, and replaces the prototype. Otherwise a read-only property inherited from
  a function makes the assignment do nothing (the file is not in strict mode). Otherwise
  a new own property is made.
\<close>

definition assign :: "registry \<Rightarrow> string \<Rightarrow> entry \<Rightarrow> registry" where
  "assign r k v =
     (if k \<in> fst ` set (own r) then r\<lparr>own := put (own r) k v\<rparr>
      else if k = ''__proto__'' \<and> proto r \<noteq> Null_prototype then
        r\<lparr>proto := (case v of Null \<Rightarrow> Null_prototype | Class c \<Rightarrow> Function_prototype c)\<rparr>
      else if (case proto r of Function_prototype c \<Rightarrow> True | _ \<Rightarrow> False) \<and>
              k \<in> set [''length'', ''name'', ''arguments'', ''caller''] then r
      else r\<lparr>own := put (own r) k v\<rparr>)"

text \<open>\<^verbatim>\<open>Object.keys\<close>: the names of the own properties.\<close>

definition Object_keys :: "registry \<Rightarrow> string list" where
  "Object_keys r = map fst (own r)"

text \<open>
  \<^verbatim>\<open>defineClient(serviceIdentifier, versions, features)\<close> called with a service name:
  the loop that fills the versions hash, starting from \<^verbatim>\<open>{}\<close>.
\<close>

definition empty_object :: registry where
  "empty_object = \<lparr>own = [], proto = Object_prototype\<rparr>"

fun versions_hash :: "registry \<Rightarrow> string list \<Rightarrow> registry" where
  "versions_hash r [] = r"
| "versions_hash r (v # vs) = versions_hash (assign r v Null) vs"

definition defineClient :: "string \<Rightarrow> string list \<Rightarrow> string list \<Rightarrow> service" where
  "defineClient name versions fs =
     \<lparr>clients = Some (versions_hash empty_object versions), serviceIdentifier = Some name,
      features = fs\<rparr>"

subsection \<open>getLatestClientVersion\<close>

text \<open>
  \<^verbatim>\<open>this.constructor.clients.length === 0\<close>: the registry is an object, so \<^verbatim>\<open>length\<close>
  is its own property of that name, if any, and else the one it inherits. Strict
  equality with the number 0 fails for \<^verbatim>\<open>undefined\<close>, for \<^verbatim>\<open>null\<close> and for a class;
  a function as prototype passes on its number of parameters.
\<close>

definition length_is_zero :: "registry \<Rightarrow> bool" where
  "length_is_zero r =
     (case map_of (own r) ''length'' of
        Some e \<Rightarrow> False
      | None \<Rightarrow>
          (case proto r of
             Function_prototype c \<Rightarrow> class_arity c = 0
           | _ \<Rightarrow> False))"

text \<open>
  A class called as a function on the registry runs the constructor of lines 25 to 29
  with the registry as \<^verbatim>\<open>this\<close>: \<^verbatim>\<open>this.loadClientClass(...)\<close> is a call of what is no
  function, unless the registry has a class under that very name, which is then called
  in the same way, without end.
\<close>

definition call_class :: "registry \<Rightarrow> error" where
  "call_class r =
     (case map_of (own r) ''loadClientClass'' of
        Some (Class c) \<Rightarrow> RangeError ''Maximum call stack size exceeded''
      | _ \<Rightarrow> TypeError ''undefined is not a function'')"

text \<open>
  The conversion of the registry to a property name: \<^verbatim>\<open>toString\<close> is called if the
  registry has a function of that name, and then \<^verbatim>\<open>valueOf\<close>, until one returns a
  primitive value. An own property comes before an inherited one; \<^verbatim>\<open>null\<close> is no
  function and a class is one. \<^verbatim>\<open>Object.prototype.toString\<close> returns
  \<^verbatim>\<open>[object Object]\<close>, \<^verbatim>\<open>Function.prototype.toString\<close> refuses what is no function,
  and \<^verbatim>\<open>Object.prototype.valueOf\<close> returns the object, which is no primitive value.
\<close>

definition valueOf_step :: "registry \<Rightarrow> error + string" where
  "valueOf_step r =
     (case map_of (own r) ''valueOf'' of
        Some (Class c) \<Rightarrow> Inl (call_class r)
      | _ \<Rightarrow> Inl (TypeError ''Cannot convert object to primitive value''))"

definition ToPropertyKey :: "registry \<Rightarrow> error + string" where
  "ToPropertyKey r =
     (case map_of (own r) ''toString'' of
        Some (Class c) \<Rightarrow> Inl (call_class r)
      | Some Null \<Rightarrow> valueOf_step r
      | None \<Rightarrow>
          (case proto r of
             Object_prototype \<Rightarrow> Inr ''[object Object]''
           | Null_prototype \<Rightarrow> valueOf_step r
           | Function_prototype c \<Rightarrow>
               Inl (TypeError ''Function.prototype.toString is not generic'')))"

text \<open>
  \<^verbatim>\<open>Object.hasOwnProperty(this.constructor.clients, version)\<close> is the inherited
  \<^verbatim>\<open>Object.prototype.hasOwnProperty\<close> applied to the \<^verbatim>\<open>Object\<close> constructor itself. Its
  one parameter receives the registry, which is converted to a property name; the
  version is a surplus argument. The answer is whether the \<^verbatim>\<open>Object\<close> constructor has
  an own property of that name.
\<close>

definition Object_own_properties :: "string list" where
  "Object_own_properties =
     [''length'', ''name'', ''arguments'', ''caller'', ''prototype'', ''keys'', ''create'',
      ''defineProperty'', ''defineProperties'', ''freeze'', ''seal'', ''preventExtensions'',
      ''isFrozen'', ''isSealed'', ''isExtensible'', ''getPrototypeOf'',
      ''getOwnPropertyNames'', ''getOwnPropertyDescriptor'', ''assign'', ''entries'',
      ''values'', ''is'', ''setPrototypeOf'', ''getOwnPropertySymbols'',
      ''getOwnPropertyDescriptors'', ''fromEntries'', ''hasOwn'', ''groupBy'']"

definition Object_hasOwnProperty :: "registry \<Rightarrow> string \<Rightarrow> error + bool" where
  "Object_hasOwnProperty r v =
     (case ToPropertyKey r of
        Inl e \<Rightarrow> Inl e
      | Inr name \<Rightarrow> Inr (name \<in> set Object_own_properties))"

text \<open>
  The descending loop \<^verbatim>\<open>for (var i = keys.length - 1; i >= 0; i--)\<close>. The second
  argument is \<^verbatim>\<open>i + 1\<close>, the number of keys not looked at yet.
\<close>

fun scan_keys :: "string list \<Rightarrow> nat \<Rightarrow> string \<Rightarrow> string option" where
  "scan_keys keys 0 v = None"
| "scan_keys keys (Suc i) v =
     (if keys ! i \<le> v then Some (keys ! i) else scan_keys keys i v)"

text \<open>Lines 70 to 74: the default and the conversion of a date;
  \<^verbatim>\<open>split('T')[0]\<close> keeps what stands before the first \<^verbatim>\<open>T\<close>.\<close>

definition requested :: "version \<Rightarrow> string" where
  "requested version =
     (if falsy version then ''latest''
      else case version of
             Date d \<Rightarrow> takeWhile (\<lambda>c. c \<noteq> CHR ''T'') d
           | Str s \<Rightarrow> s
           | Undefined \<Rightarrow> ''latest'')"

definition no_clients_error :: "service \<Rightarrow> error" where
  "no_clients_error ctor = Error (''No clients defined on '' @ js_string (serviceIdentifier ctor))"

definition version_constraint_error :: "service \<Rightarrow> string \<Rightarrow> error" where
  "version_constraint_error ctor v =
     Error (''Could not find '' @ js_string (serviceIdentifier ctor) @
            '' API to satisfy version constraint `'' @ v @ [CHR 0x27])"

definition getLatestClientVersion :: "service \<Rightarrow> version \<Rightarrow> error + string" where
  "getLatestClientVersion ctor version =
     (case clients ctor of
        None \<Rightarrow> Inl (no_clients_error ctor)
      | Some r \<Rightarrow>
          if length_is_zero r then Inl (no_clients_error ctor)
          else
            let v = requested version in
            (case Object_hasOwnProperty r v of
               Inl e \<Rightarrow> Inl e
             | Inr True \<Rightarrow> Inr v
             | Inr False \<Rightarrow>
                 let keys = sort (Object_keys r) in
                 (case scan_keys keys (length keys) v of
                    Some k \<Rightarrow> Inr k
                  | None \<Rightarrow> Inl (version_constraint_error ctor v))))"

text \<open>The shape of the spec's version keys: an ISO date \<^verbatim>\<open>YYYY-MM-DD\<close>.\<close>

definition digit :: "char \<Rightarrow> bool" where
  "digit c \<longleftrightarrow> CHR ''0'' \<le> c \<and> c \<le> CHR ''9''"

fun iso_date :: "string \<Rightarrow> bool" where
  "iso_date [y1, y2, y3, y4, d1, m1, m2, d2, t1, t2] \<longleftrightarrow>
     digit y1 \<and> digit y2 \<and> digit y3 \<and> digit y4 \<and> d1 = CHR ''-'' \<and>
     digit m1 \<and> digit m2 \<and> d2 = CHR ''-'' \<and> digit t1 \<and> digit t2"
| "iso_date s \<longleftrightarrow> False"

subsection \<open>Configuration\<close>

text \<open>
  The options object given to a client and the \<^verbatim>\<open>AWS.Config\<close> made from it carry the
  same keys; a key that is not set is \<^const>\<open>None\<close> (\<^const>\<open>Undefined\<close> for a version).
\<close>

record config =
  region :: "string option"
  maxRetries :: "nat option"
  paramValidation :: "bool option"
  endpoint :: "string option"
  apiVersion :: version
  apiVersions :: "(string \<times> version) list option"
  apiConfig :: "api option"




text \<open>
  Modelled from the spec: \<^verbatim>\<open>AWS.Endpoint\<close> is not part of client.js. An endpoint is
  the constructor applied to the host text and the configuration it was given; the
  spec lets it produce a value for every host.
\<close>

datatype endpoint_value = Endpoint string config

subsection \<open>Client instances\<close>

text \<open>
  \<^verbatim>\<open>this\<close>: the class it was made from, the descriptor on its prototype, its own
  \<^verbatim>\<open>defaultRetryCount\<close> when one was assigned, and the two properties
  \<^verbatim>\<open>initialize\<close> sets.
\<close>

record client =
  constructor :: service
  api :: api
  defaultRetryCount :: "nat option"
  config :: config
  client_endpoint :: "endpoint_value option"

subsection \<open>Retry policy\<close>

text \<open>\<^verbatim>\<open>defaultRetryCount: 3\<close> on the prototype; an instance or a client class may
  assign its own.\<close>

definition prototype_defaultRetryCount :: nat where
  "prototype_defaultRetryCount = 3"

definition this_defaultRetryCount :: "client \<Rightarrow> nat" where
  "this_defaultRetryCount this =
     (case defaultRetryCount this of None \<Rightarrow> prototype_defaultRetryCount | Some d \<Rightarrow> d)"

definition numRetries :: "client \<Rightarrow> nat" where
  "numRetries this =
     (case maxRetries (config this) of
        Some n \<Rightarrow> n
      | None \<Rightarrow> this_defaultRetryCount this)"

text \<open>
  A delay is a JavaScript number, an IEEE double: an integer it holds exactly, or
  \<^verbatim>\<open>Infinity\<close>. The largest finite double is \<open>2 ^ 1024 - 2 ^ 971\<close>.
  \<^verbatim>\<open>Math.pow(2, i)\<close> is the exact power while that is finite. Its product with 30 is
  15 times a power of two, so it needs four bits of the significand and is exact
  while it is finite too; the first product beyond the largest double is already
  above \<open>2 ^ 1024\<close> and rounds to \<^verbatim>\<open>Infinity\<close>.
\<close>

datatype number = Num nat | Infinity

definition max_double :: nat where
  "max_double = 2 ^ 1024 - 2 ^ 971"

definition Math_pow_2 :: "nat \<Rightarrow> number" where
  "Math_pow_2 i = (if 2 ^ i \<le> max_double then Num (2 ^ i) else Infinity)"

fun times_30 :: "number \<Rightarrow> number" where
  "times_30 (Num n) = (if n * 30 \<le> max_double then Num (n * 30) else Infinity)"
| "times_30 Infinity = Infinity"

text \<open>
  \<^verbatim>\<open>delays[i] = x\<close> on a JavaScript array: an index inside the array replaces the
  element, an index at or past the end extends the array and leaves holes
  (\<^const>\<open>None\<close>) between the old end and the new element.
\<close>

definition array_set :: "number option list \<Rightarrow> nat \<Rightarrow> number \<Rightarrow> number option list" where
  "array_set xs i x =
     (if i < length xs then xs[i := Some x]
      else xs @ replicate (i - length xs) None @ [Some x])"

function retryDelays_loop :: "nat \<Rightarrow> nat \<Rightarrow> number option list \<Rightarrow> number option list" where
  "retryDelays_loop i retryCount delays =
     (if i < retryCount
      then retryDelays_loop (Suc i) retryCount (array_set delays i (times_30 (Math_pow_2 i)))
      else delays)"
  by pat_completeness auto
termination
  by (relation "measure (\<lambda>(i, retryCount, delays). retryCount - i)") auto

declare retryDelays_loop.simps [simp del]

definition retryDelays :: "client \<Rightarrow> number option list" where
  "retryDelays this = (let retryCount = numRetries this in retryDelays_loop 0 retryCount [])"

text \<open>An error object as the retry policy reads it.\<close>

record service_error =
  code :: "string option"
  statusCode :: "int option"

definition networkingError :: "service_error \<Rightarrow> bool" where
  "networkingError e \<longleftrightarrow> code e = Some ''NetworkingError''"

definition expiredCredentialsError :: "service_error \<Rightarrow> bool" where
  "expiredCredentialsError e \<longleftrightarrow> code e = Some ''ExpiredTokenException''"

definition throttledError :: "service_error \<Rightarrow> bool" where
  "throttledError e \<longleftrightarrow> code e = Some ''ProvisionedThroughputExceededException''"

definition retryableError :: "service_error \<Rightarrow> bool" where
  "retryableError e =
     (if networkingError e then True
      else if expiredCredentialsError e then True
      else if throttledError e then True
      else if (case statusCode e of None \<Rightarrow> False | Some s \<Rightarrow> s \<ge> 500) then True
      else False)"

subsection \<open>setEndpoint\<close>

definition setEndpoint :: "client \<Rightarrow> string option \<Rightarrow> client" where
  "setEndpoint this ep =
     (if truthy ep then
        this\<lparr>client_endpoint := Some (Endpoint (js_string ep) (config this))\<rparr>
      else if truthy (globalEndpoint (api this)) then
        this\<lparr>client_endpoint :=
               Some (Endpoint (js_string (globalEndpoint (api this))) (config this))\<rparr>
      else
        let host = js_string (endpointPrefix (api this)) @ ''.'' @
                   js_string (region (config this)) @ ''.amazonaws.com''
        in this\<lparr>client_endpoint := Some (Endpoint host (config this))\<rparr>)"

subsection \<open>The surroundings of the client\<close>

text \<open>
  A function handed in by the caller, known by its name, and the response it is
  called with.
\<close>

datatype func = Func string

record response =
  resp_error :: "service_error option"
  resp_data :: "string option"

text \<open>
  Event handlers: the parameter validator \<^verbatim>\<open>AWS.EventListeners.Core.VALIDATE_PARAMETERS\<close>,
  the other handlers of lib/event\_listeners.js by name, and the closure
  \<^verbatim>\<open>function (resp) { callback.call(resp, resp.error, resp.data); }\<close> of
  \<^verbatim>\<open>makeRequest\<close>. A listener set is a list of handlers with their phases.
\<close>

datatype handler = VALIDATE_PARAMETERS | Handler string | CompleteCallback func

type_synonym listeners = "(string \<times> handler) list"

text \<open>\<^verbatim>\<open>callback.call(resp, resp.error, resp.data)\<close>: the function, its \<^verbatim>\<open>this\<close> and
  its two arguments.\<close>

datatype call = Call func response "service_error option" "string option"

fun run_handler :: "handler \<Rightarrow> response \<Rightarrow> call list" where
  "run_handler (CompleteCallback callback) resp =
     [Call callback resp (resp_error resp) (resp_data resp)]"
| "run_handler VALIDATE_PARAMETERS resp = []"
| "run_handler (Handler name) resp = []"

text \<open>
  What client.js takes from the modules around it: the global \<^verbatim>\<open>AWS.config\<close>, the
  loader behind \<^verbatim>\<open>require('./services/api/' + apiFile)\<close> (\<^const>\<open>None\<close> when it throws),
  the global listeners \<^verbatim>\<open>AWS.events\<close>, the listener sets of
  \<^verbatim>\<open>AWS.EventListeners\<close>, and the number of parameters of the constructor
  functions \<^verbatim>\<open>AWS.util.inherit\<close> makes.
\<close>

record aws =
  AWS_config :: config
  require :: "string \<Rightarrow> api option"
  events :: listeners
  Core :: listeners
  Query :: listeners
  Json :: listeners
  RestJson :: listeners
  RestXml :: listeners
  inherit_arity :: nat

subsection \<open>defineMethods and defineClientApi\<close>






subsection \<open>getLatestClientClass and loadClientClass\<close>







subsection \<open>Requests\<close>

text \<open>The second argument of \<^verbatim>\<open>makeRequest\<close>: left out, a parameter object, or a
  function.\<close>

datatype arg = NoParams | Params "(string \<times> string) list" | Function func

text \<open>
  Modelled from the spec: \<^verbatim>\<open>AWS.Request\<close> is not part of client.js. A request has its
  owning client, operation name, parameters, the ordered list of its listeners and a
  sent flag. Listener sets attach additively in attachment order, a handler is removed
  by identity, and \<^verbatim>\<open>send\<close> starts the request.
\<close>

record request =
  request_client :: client
  operation :: string
  params :: "(string \<times> string) list option"
  request_listeners :: listeners
  sent :: bool

definition Request :: "client \<Rightarrow> string \<Rightarrow> (string \<times> string) list option \<Rightarrow> request" where
  "Request this op ps =
     \<lparr>request_client = this, operation = op, params = ps, request_listeners = [], sent = False\<rparr>"

definition addListeners :: "request \<Rightarrow> listeners \<Rightarrow> request" where
  "addListeners req ls = req\<lparr>request_listeners := request_listeners req @ ls\<rparr>"

definition on :: "request \<Rightarrow> string \<Rightarrow> handler \<Rightarrow> request" where
  "on req phase h = req\<lparr>request_listeners := request_listeners req @ [(phase, h)]\<rparr>"

definition removeListener :: "request \<Rightarrow> string \<Rightarrow> handler \<Rightarrow> request" where
  "removeListener req phase h =
     req\<lparr>request_listeners := removeAll (phase, h) (request_listeners req)\<rparr>"

definition send :: "request \<Rightarrow> request" where
  "send req = req\<lparr>sent := True\<rparr>"

subsection \<open>serviceInterface, addAllRequestListeners and makeRequest\<close>

definition invalid_format_error :: "string option \<Rightarrow> error" where
  "invalid_format_error f =
     Error (''Invalid service `format'' @ [CHR 0x27] @ '' '' @ js_string f @ '' in API config'')"

definition serviceInterface :: "aws \<Rightarrow> client \<Rightarrow> error + listeners option" where
  "serviceInterface AWS this =
     (if format (api this) = Some ''query'' then Inr (Some (Query AWS))
      else if format (api this) = Some ''json'' then Inr (Some (Json AWS))
      else if format (api this) = Some ''rest-json'' then Inr (Some (RestJson AWS))
      else if format (api this) = Some ''rest-xml'' then Inr (Some (RestXml AWS))
      else if truthy (format (api this)) then Inl (invalid_format_error (format (api this)))
      else Inr None)"

text \<open>The base \<^verbatim>\<open>setupRequestListeners\<close> has an empty body.\<close>

definition setupRequestListeners :: "client \<Rightarrow> request \<Rightarrow> request" where
  "setupRequestListeners this req = req"

text \<open>The loop over \<^verbatim>\<open>list\<close>: an entry that is \<^verbatim>\<open>undefined\<close> is passed over.\<close>

fun add_each :: "request \<Rightarrow> listeners option list \<Rightarrow> request" where
  "add_each req [] = req"
| "add_each req (None # list) = add_each req list"
| "add_each req (Some ls # list) = add_each (addListeners req ls) list"

text \<open>\<^verbatim>\<open>!this.config.paramValidation\<close>.\<close>

definition paramValidation_off :: "config \<Rightarrow> bool" where
  "paramValidation_off cfg \<longleftrightarrow> paramValidation cfg \<noteq> Some True"

definition addAllRequestListeners :: "aws \<Rightarrow> client \<Rightarrow> request \<Rightarrow> error + request" where
  "addAllRequestListeners AWS this req =
     (case serviceInterface AWS this of
        Inl e \<Rightarrow> Inl e
      | Inr si \<Rightarrow>
          let list = [Some (events AWS), Some (Core AWS), si];
              req = add_each req list;
              req = (if paramValidation_off (config this)
                     then removeListener req ''validate'' VALIDATE_PARAMETERS else req)
          in Inr (setupRequestListeners this req))"

definition makeRequest ::
  "aws \<Rightarrow> client \<Rightarrow> string \<Rightarrow> arg \<Rightarrow> func option \<Rightarrow> error + request" where
  "makeRequest AWS this op ps callback =
     (let (callback, ps) =
            (case ps of
               Function f \<Rightarrow> (Some f, Some [])
             | Params p \<Rightarrow> (callback, Some p)
             | NoParams \<Rightarrow> (callback, None))
      in case addAllRequestListeners AWS this (Request this op ps) of
           Inl e \<Rightarrow> Inl e
         | Inr req \<Rightarrow>
             (case callback of
                Some cb \<Rightarrow> Inr (send (on req ''complete'' (CompleteCallback cb)))
              | None \<Rightarrow> Inr req))"

subsection \<open>Fixtures of the test suite\<close>

text \<open>The global configuration with its defaults, and the \<^verbatim>\<open>FooClient\<close> of
  client.spec.coffee: a client class whose descriptor has only an endpoint prefix.\<close>

definition default_config :: config where
  "default_config =
     \<lparr>region = Some ''us-east-1'', maxRetries = None, paramValidation = Some True,
      endpoint = None, apiVersion = Undefined, apiVersions = Some [], apiConfig = None\<rparr>"

definition FooClient :: "config \<Rightarrow> client" where
  "FooClient cfg =
     \<lparr>constructor = \<lparr>clients = None, serviceIdentifier = None, features = [''api'']\<rparr>,
      api = empty_api\<lparr>endpointPrefix := Some ''fooservice''\<rparr>,
      defaultRetryCount = None,
      config = cfg,
      client_endpoint = None\<rparr>"

text \<open>
  The surroundings used by the examples: a loader that finds no descriptor file, as in
  the test suite, listener sets of one or two handlers, and constructors that pass
  their arguments on without declaring them. \<^verbatim>\<open>CustomClient\<close> is the versioned
  service of client.spec.coffee.
\<close>

definition test_AWS :: aws where
  "test_AWS =
     \<lparr>AWS_config = default_config, require = (\<lambda>file. None),
      events = [], Core = [(''validate'', VALIDATE_PARAMETERS), (''send'', Handler ''SEND'')],
      Query = [(''build'', Handler ''Query.BUILD'')], Json = [(''build'', Handler ''Json.BUILD'')],
      RestJson = [(''build'', Handler ''RestJson.BUILD'')],
      RestXml = [(''build'', Handler ''RestXml.BUILD'')],
      inherit_arity = 0\<rparr>"


section \<open>Properties\<close>

subsection \<open>The descending scan\<close>

lemma scan_keys_None:
  "scan_keys keys n v = None \<longleftrightarrow> (\<forall>j<n. \<not> keys ! j \<le> v)"
  by (induction n) (auto simp: less_Suc_eq)

lemma scan_keys_Some:
  "scan_keys keys n v = Some k \<Longrightarrow>
     \<exists>j<n. k = keys ! j \<and> keys ! j \<le> v \<and> (\<forall>j'. j < j' \<and> j' < n \<longrightarrow> \<not> keys ! j' \<le> v)"
proof (induction n)
  case 0
  then show ?case by simp
next
  case (Suc n)
  show ?case
  proof (cases "keys ! n \<le> v")
    case True
    with Suc.prems have "k = keys ! n" by simp
    with True show ?thesis by (intro exI [of _ n]) auto
  next
    case False
    with Suc.prems have "scan_keys keys n v = Some k" by simp
    from Suc.IH [OF this] obtain j where j: "j < n" "k = keys ! j" "keys ! j \<le> v"
      "\<forall>j'. j < j' \<and> j' < n \<longrightarrow> \<not> keys ! j' \<le> v" by blast
    with False show ?thesis
      by (intro exI [of _ j]) (auto simp: less_Suc_eq)
  qed
qed

lemma scan_sorted:
  assumes "sorted ks"
  shows "scan_keys ks (length ks) v =
    (if \<exists>k\<in>set ks. k \<le> v then Some (Max {k \<in> set ks. k \<le> v}) else None)"
proof (cases "scan_keys ks (length ks) v")
  case None
  then have "\<forall>j<length ks. \<not> ks ! j \<le> v" by (simp add: scan_keys_None)
  then have "\<not> (\<exists>k\<in>set ks. k \<le> v)" by (auto simp: in_set_conv_nth)
  with None show ?thesis by simp
next
  case (Some k)
  from scan_keys_Some [OF Some] obtain j where j: "j < length ks" "k = ks ! j" "ks ! j \<le> v"
    and top: "\<forall>j'. j < j' \<and> j' < length ks \<longrightarrow> \<not> ks ! j' \<le> v" by blast
  have kin: "k \<in> {k \<in> set ks. k \<le> v}" using j by simp
  have "k' \<le> k" if "k' \<in> {k \<in> set ks. k \<le> v}" for k'
  proof -
    from that obtain j' where j': "j' < length ks" "k' = ks ! j'" "ks ! j' \<le> v"
      by (auto simp: in_set_conv_nth)
    with top have "j' \<le> j" by (meson not_le_imp_less)
    with assms j(1) have "ks ! j' \<le> ks ! j" by (simp add: sorted_nth_mono)
    with j j' show ?thesis by simp
  qed
  with kin have "Max {k \<in> set ks. k \<le> v} = k" by (intro Max_eqI) auto
  with kin Some show ?thesis by auto
qed

subsection \<open>The exact-match test\<close>

text \<open>
  The conversion of the registry yields a name only for an object that has its
  prototype and no own \<^verbatim>\<open>toString\<close>, and the name is \<^verbatim>\<open>[object Object]\<close>. So the
  test of line 76 never succeeds: it fails, or it throws.
\<close>

lemma ToPropertyKey_Inr:
  "ToPropertyKey r = Inr name \<longleftrightarrow>
     name = ''[object Object]'' \<and> proto r = Object_prototype \<and>
     ''toString'' \<notin> set (Object_keys r)"
proof (cases "map_of (own r) ''toString''")
  case None
  then have "''toString'' \<notin> set (Object_keys r)"
    by (simp add: Object_keys_def map_of_eq_None_iff)
  with None show ?thesis
    by (auto simp: ToPropertyKey_def valueOf_step_def split: prototype.splits option.splits
        entry.splits)
next
  case (Some e)
  then have "(''toString'', e) \<in> set (own r)" by (rule map_of_SomeD)
  then have "''toString'' \<in> set (Object_keys r)"
    by (force simp: Object_keys_def)
  with Some show ?thesis
    by (auto simp: ToPropertyKey_def valueOf_step_def split: option.splits entry.splits)
qed

lemma Object_hasOwnProperty_Inr:
  "Object_hasOwnProperty r v = Inr b \<longleftrightarrow>
     \<not> b \<and> proto r = Object_prototype \<and> ''toString'' \<notin> set (Object_keys r)"
proof (cases "ToPropertyKey r")
  case (Inl e)
  then have "\<not> (proto r = Object_prototype \<and> ''toString'' \<notin> set (Object_keys r))"
    using ToPropertyKey_Inr [of r "''[object Object]''"] by auto
  with Inl show ?thesis by (auto simp: Object_hasOwnProperty_def)
next
  case (Inr name)
  then show ?thesis
    using ToPropertyKey_Inr [of r name]
    by (auto simp: Object_hasOwnProperty_def Object_own_properties_def)
qed

lemma Object_hasOwnProperty_never:
  "Object_hasOwnProperty r v \<noteq> Inr True"
  by (simp add: Object_hasOwnProperty_Inr)

lemma length_is_zero_plain:
  "proto r = Object_prototype \<Longrightarrow> \<not> length_is_zero r"
  by (simp add: length_is_zero_def split: option.splits)

lemma getLatestClientVersion_scan:
  assumes "clients ctor = Some r" and "Object_hasOwnProperty r (requested version) = Inr b"
  shows "getLatestClientVersion ctor version =
    (if \<exists>k\<in>set (Object_keys r). k \<le> requested version
     then Inr (Max {k \<in> set (Object_keys r). k \<le> requested version})
     else Inl (version_constraint_error ctor (requested version)))"
proof -
  from assms(2) have b: "\<not> b" and p: "proto r = Object_prototype"
    by (simp_all add: Object_hasOwnProperty_Inr)
  from assms b have "Object_hasOwnProperty r (requested version) = Inr False" by simp
  with assms(1) length_is_zero_plain [OF p]
    scan_sorted [of "sort (Object_keys r)" "requested version"]
  show ?thesis by (simp add: getLatestClientVersion_def Let_def)
qed

text \<open>The version returned is an own property of the registry.\<close>

lemma getLatestClientVersion_own:
  assumes "clients ctor = Some r" and "getLatestClientVersion ctor version = Inr k"
  shows "k \<in> set (Object_keys r)"
proof (cases "Object_hasOwnProperty r (requested version)")
  case (Inl e)
  with assms show ?thesis
    by (simp add: getLatestClientVersion_def Let_def split: if_splits)
next
  case (Inr b)
  have "Max {k \<in> set (Object_keys r). k \<le> requested version} \<in>
      {k \<in> set (Object_keys r). k \<le> requested version}"
    if "\<exists>k\<in>set (Object_keys r). k \<le> requested version"
    using that by (intro Max_in) auto
  with assms(2) getLatestClientVersion_scan [OF assms(1) Inr] show ?thesis
    by (auto split: if_splits)
qed

lemma iso_date_le_latest: "iso_date k \<Longrightarrow> k \<le> ''latest''"
  by (erule iso_date.elims) (auto simp: digit_def list_le_def less_eq_char_def less_char_def)

lemma iso_registry_plain:
  assumes "proto r = Object_prototype" and "\<forall>k\<in>set (Object_keys r). iso_date k"
  shows "Object_hasOwnProperty r v = Inr False"
proof -
  have "\<not> iso_date ''toString''" by simp
  with assms(2) have "''toString'' \<notin> set (Object_keys r)" by blast
  with assms(1) show ?thesis by (simp add: Object_hasOwnProperty_Inr)
qed

text \<open>
  What the test of line 76 does to a registry that has a version named
  \<^verbatim>\<open>toString\<close>, or one named \<^verbatim>\<open>__proto__\<close> (which leaves an object without
  prototype): the resolution of a registered version ends in a \<^verbatim>\<open>TypeError\<close>.
\<close>

lemma getLatestClientVersion_toString_key:
  "getLatestClientVersion (defineClient ''custom'' [''toString'', ''2001-01-01''] [])
     (Str ''2001-01-01'') = Inl (TypeError ''Cannot convert object to primitive value'')"
  by (simp add: getLatestClientVersion_def defineClient_def empty_object_def assign_def
      length_is_zero_def Object_hasOwnProperty_def ToPropertyKey_def valueOf_step_def)

lemma getLatestClientVersion_proto_key:
  "clients (defineClient ''custom'' [''__proto__'', ''2001-01-01''] []) =
     Some \<lparr>own = [(''2001-01-01'', Null)], proto = Null_prototype\<rparr> \<and>
   getLatestClientVersion (defineClient ''custom'' [''__proto__'', ''2001-01-01''] [])
     (Str ''2001-01-01'') = Inl (TypeError ''Cannot convert object to primitive value'')"
  by (simp add: getLatestClientVersion_def defineClient_def empty_object_def assign_def
      length_is_zero_def Object_hasOwnProperty_def ToPropertyKey_def valueOf_step_def)

subsection \<open>Version resolution\<close>

text \<open>
  Claim C1 as it is stated fails for the empty string: no key is at most the empty
  string, yet no error is raised and the greatest key is returned.
\<close>

theorem getLatestClientVersion_empty_string:
  "getLatestClientVersion (defineClient ''custom'' [''2001-01-01'', ''1999-05-05''] []) (Str '''') =
     Inr ''2001-01-01'' \<and>
   \<not> ''2001-01-01'' \<le> (''''::string) \<and> \<not> ''1999-05-05'' \<le> (''''::string)"
  by (simp add: getLatestClientVersion_def defineClient_def empty_object_def assign_def
      length_is_zero_def Object_hasOwnProperty_def ToPropertyKey_def Object_own_properties_def
      requested_def Object_keys_def)

text \<open>
  Claim C1, as amended. Let the registry be the object \<^verbatim>\<open>defineClient\<close> makes (an
  object with its prototype), non-empty and with ISO-date keys. For a requested
  version string \<open>v\<close> that is not empty, \<^const>\<open>getLatestClientVersion\<close> returns the
  lexically greatest registered key that is at most \<open>v\<close>, and raises the
  version-constraint error when no registered key is at most \<open>v\<close>. An absent version
  is handled as \<^verbatim>\<open>latest\<close>, so that the greatest registered key is returned, and so
  is the empty string, which \<^verbatim>\<open>!version\<close> takes for an absent version.
\<close>

theorem getLatestClientVersion_greatest_key:
  assumes "clients ctor = Some r" and "proto r = Object_prototype"
    and "Object_keys r \<noteq> []" and "\<forall>k\<in>set (Object_keys r). iso_date k"
  shows "(v \<noteq> [] \<longrightarrow>
            getLatestClientVersion ctor (Str v) =
              (if \<exists>k\<in>set (Object_keys r). k \<le> v
               then Inr (Max {k \<in> set (Object_keys r). k \<le> v})
               else Inl (version_constraint_error ctor v))) \<and>
         getLatestClientVersion ctor Undefined = Inr (Max (set (Object_keys r))) \<and>
         getLatestClientVersion ctor (Str []) = getLatestClientVersion ctor Undefined"
proof -
  note scan = getLatestClientVersion_scan [OF assms(1) iso_registry_plain [OF assms(2,4)]]
  have all: "{k \<in> set (Object_keys r). k \<le> ''latest''} = set (Object_keys r)"
    using assms(4) by (auto dest: iso_date_le_latest)
  from assms(3) obtain k where k: "k \<in> set (Object_keys r)"
    by (cases "Object_keys r") auto
  with assms(4) have ex: "\<exists>k\<in>set (Object_keys r). k \<le> ''latest''"
    by (auto dest: iso_date_le_latest)
  have undef: "getLatestClientVersion ctor Undefined = Inr (Max (set (Object_keys r)))"
    using ex all by (simp add: scan requested_def)
  have empty: "getLatestClientVersion ctor (Str []) = getLatestClientVersion ctor Undefined"
    by (simp add: scan requested_def)
  have str: "getLatestClientVersion ctor (Str v) =
              (if \<exists>k\<in>set (Object_keys r). k \<le> v
               then Inr (Max {k \<in> set (Object_keys r). k \<le> v})
               else Inl (version_constraint_error ctor v))" if "v \<noteq> []"
    using that by (simp add: scan requested_def)
  from undef empty str show ?thesis by blast
qed

theorem getLatestClientVersion_greatest_key_witness:
  "getLatestClientVersion (defineClient ''custom'' [''2001-01-01'', ''1999-05-05''] [])
     (Str ''2000-01-01'') = Inr ''1999-05-05'' \<and>
   getLatestClientVersion (defineClient ''custom'' [''2001-01-01'', ''1999-05-05''] [])
     (Str ''1998-01-01'') =
     Inl (Error (''Could not find custom API to satisfy version constraint `1998-01-01'' @ [CHR 0x27])) \<and>
   getLatestClientVersion (defineClient ''custom'' [''2001-01-01'', ''1999-05-05''] [])
     Undefined = Inr ''2001-01-01''"
proof -
  let ?ctor = "defineClient ''custom'' [''2001-01-01'', ''1999-05-05''] []"
  let ?r = "\<lparr>own = [(''2001-01-01'', Null), (''1999-05-05'', Null)], proto = Object_prototype\<rparr>"
  have h1: "clients ?ctor = Some ?r"
    by (simp add: defineClient_def empty_object_def assign_def)
  have h2: "proto ?r = Object_prototype" by simp
  have h3: "Object_keys ?r \<noteq> []" by (simp add: Object_keys_def)
  have h4: "\<forall>k\<in>set (Object_keys ?r). iso_date k" by (simp add: Object_keys_def digit_def)
  have ks: "set (Object_keys ?r) = {''2001-01-01'', ''1999-05-05''}"
    by (simp add: Object_keys_def)
  have m1: "{k \<in> set (Object_keys ?r). k \<le> ''2000-01-01''} = {''1999-05-05''}"
    unfolding ks by auto
  have m2: "\<not> (\<exists>k\<in>set (Object_keys ?r). k \<le> ''1998-01-01'')"
    unfolding ks by simp
  have m3: "\<exists>k\<in>set (Object_keys ?r). k \<le> ''2000-01-01''"
    unfolding ks by simp
  have m4: "Max (set (Object_keys ?r)) = ''2001-01-01''"
    unfolding ks by (simp add: max_def)
  note a = getLatestClientVersion_greatest_key [OF h1 h2 h3 h4, of "''2000-01-01''"]
  note b = getLatestClientVersion_greatest_key [OF h1 h2 h3 h4, of "''1998-01-01''"]
  from a m1 m3 have "getLatestClientVersion ?ctor (Str ''2000-01-01'') = Inr ''1999-05-05''"
    by simp
  moreover from b m2 have "getLatestClientVersion ?ctor (Str ''1998-01-01'') =
     Inl (version_constraint_error ?ctor ''1998-01-01'')" by simp
  moreover from a m4 have "getLatestClientVersion ?ctor Undefined = Inr ''2001-01-01''"
    by simp
  ultimately show ?thesis
    by (simp add: version_constraint_error_def defineClient_def js_string_def)
qed

text \<open>
  Claim C4. For an empty registry the claim expects the error
  \<^verbatim>\<open>No clients defined on custom\<close>. The registry of a service defined with no versions
  is the object \<^verbatim>\<open>{}\<close>, whose \<^verbatim>\<open>length\<close> is undefined, not 0: the guard does not
  fire and the resolution ends in the version-constraint error.
\<close>

theorem getLatestClientVersion_empty_registry:
  "clients (defineClient ''custom'' [] []) = Some \<lparr>own = [], proto = Object_prototype\<rparr> \<and>
   getLatestClientVersion (defineClient ''custom'' [] []) Undefined =
     Inl (Error (''Could not find custom API to satisfy version constraint `latest'' @ [CHR 0x27])) \<and>
   getLatestClientVersion (defineClient ''custom'' [] []) Undefined \<noteq>
     Inl (Error ''No clients defined on custom'')"
  by (simp add: getLatestClientVersion_def defineClient_def empty_object_def
      length_is_zero_def Object_hasOwnProperty_def ToPropertyKey_def Object_own_properties_def
      requested_def Object_keys_def version_constraint_error_def js_string_def)




subsection \<open>Retry policy and endpoint\<close>

lemma array_set_end: "array_set xs (length xs) x = xs @ [Some x]"
  by (simp add: array_set_def)

lemma retryDelays_loop_eq:
  "length delays = i \<Longrightarrow>
     retryDelays_loop i n delays = delays @ map (\<lambda>k. Some (times_30 (Math_pow_2 k))) [i..<n]"
proof (induction i n delays rule: retryDelays_loop.induct)
  case (1 i retryCount delays)
  show ?case
  proof (cases "i < retryCount")
    case True
    with "1.prems" have "length (array_set delays i (times_30 (Math_pow_2 i))) = Suc i"
      by (simp add: array_set_def)
    from "1.IH" [OF True this] True "1.prems" show ?thesis
      by (subst retryDelays_loop.simps) (simp add: array_set_def upt_conv_Cons)
  next
    case False
    then show ?thesis by (subst retryDelays_loop.simps) simp
  qed
qed

lemma retryDelays_eq:
  "retryDelays this = map (\<lambda>k. Some (times_30 (Math_pow_2 k))) [0..<numRetries this]"
  by (simp add: retryDelays_def Let_def retryDelays_loop_eq)

text \<open>The delay of retry \<open>i\<close> is \<open>2 ^ i * 30\<close> up to \<open>i = 1019\<close>, and
  \<^verbatim>\<open>Infinity\<close> from 1020 on.\<close>

lemma max_double_bounds: "2 ^ 1019 * 30 \<le> max_double" "max_double < 2 ^ 1024"
  by (simp_all add: max_double_def)

lemma delay_finite:
  assumes "i < 1020"
  shows "times_30 (Math_pow_2 i) = Num (2 ^ i * 30)"
proof -
  from assms have "(2::nat) ^ i \<le> 2 ^ 1019" by (intro power_increasing) simp_all
  then have "(2::nat) ^ i * 30 \<le> 2 ^ 1019 * 30" by simp
  from this max_double_bounds(1) have le: "(2::nat) ^ i * 30 \<le> max_double"
    by (rule order_trans)
  have "(2::nat) ^ i \<le> 2 ^ i * 30" by simp
  from this le have "(2::nat) ^ i \<le> max_double" by (rule order_trans)
  with le show ?thesis by (simp add: Math_pow_2_def)
qed

lemma delay_infinite:
  assumes "1020 \<le> i"
  shows "times_30 (Math_pow_2 i) = Infinity"
proof -
  from assms have "(2::nat) ^ 1020 \<le> 2 ^ i" by (intro power_increasing) simp_all
  then have "(2::nat) ^ 1020 * 30 \<le> 2 ^ i * 30" by simp
  moreover have "(2::nat) ^ 1024 \<le> 2 ^ 1020 * 30" by simp
  ultimately have "(2::nat) ^ 1024 \<le> 2 ^ i * 30" by (rule order_trans [rotated])
  with max_double_bounds(2) have "\<not> (2::nat) ^ i * 30 \<le> max_double" by simp
  then show ?thesis by (simp add: Math_pow_2_def)
qed

text \<open>
  Claim C3 as it is stated fails for a client with 1022 retries: the delays of index
  1020 and 1021 are both \<^verbatim>\<open>Infinity\<close>, not \<open>2 ^ i * 30\<close>, and the list does not
  increase there.
\<close>

theorem retryDelays_overflow:
  "numRetries (FooClient (default_config\<lparr>maxRetries := Some 1022\<rparr>)) = 1022 \<and>
   retryDelays (FooClient (default_config\<lparr>maxRetries := Some 1022\<rparr>)) ! 1020 = Some Infinity \<and>
   retryDelays (FooClient (default_config\<lparr>maxRetries := Some 1022\<rparr>)) ! 1021 = Some Infinity"
proof -
  have n: "numRetries (FooClient (default_config\<lparr>maxRetries := Some 1022\<rparr>)) = 1022"
    by (simp add: numRetries_def FooClient_def)
  have "retryDelays (FooClient (default_config\<lparr>maxRetries := Some 1022\<rparr>)) ! i =
      Some (times_30 (Math_pow_2 i))" if "i < 1022" for i
    using that by (simp add: retryDelays_eq n)
  then show ?thesis by (simp add: n delay_infinite)
qed

text \<open>
  Claim C3, as amended. \<^const>\<open>retryDelays\<close> returns a list of length
  \<^const>\<open>numRetries\<close>. Its element \<open>i\<close> is \<open>2 ^ i * 30\<close> for every \<open>i\<close> below 1020, and the
  list is strictly increasing up to there; for a client with at most 1020 retries that
  is the whole list. From index 1020 on the elements are \<^verbatim>\<open>Infinity\<close>.
\<close>

theorem retryDelays_schedule:
  "length (retryDelays this) = numRetries this \<and>
   (\<forall>i<numRetries this. i < 1020 \<longrightarrow> retryDelays this ! i = Some (Num (2 ^ i * 30))) \<and>
   (\<forall>i j. i < j \<and> j < numRetries this \<and> j < 1020 \<longrightarrow>
      (\<exists>x y. retryDelays this ! i = Some (Num x) \<and> retryDelays this ! j = Some (Num y) \<and> x < y)) \<and>
   (\<forall>i<numRetries this. 1020 \<le> i \<longrightarrow> retryDelays this ! i = Some Infinity)"
  by (simp add: retryDelays_eq delay_finite delay_infinite)

theorem retryDelays_schedule_witness:
  "numRetries (FooClient default_config) = 3 \<and>
   retryDelays (FooClient default_config) = [Some (Num 30), Some (Num 60), Some (Num 120)] \<and>
   retryDelays (FooClient default_config) ! 1 = Some (Num 60)"
proof -
  have n: "numRetries (FooClient default_config) = 3"
    by (simp add: numRetries_def FooClient_def default_config_def this_defaultRetryCount_def
        prototype_defaultRetryCount_def)
  from retryDelays_schedule [of "FooClient default_config"] n
  have len: "length (retryDelays (FooClient default_config)) = 3"
    and el: "\<forall>i<3. retryDelays (FooClient default_config) ! i = Some (Num (2 ^ i * 30))"
    by simp_all
  from len el have "retryDelays (FooClient default_config) =
      map (\<lambda>i. Some (Num (2 ^ i * 30))) [0..<3]"
    by (intro nth_equalityI) simp_all
  also have "\<dots> = [Some (Num 30), Some (Num 60), Some (Num 120)]"
    by (simp add: upt_rec)
  finally have "retryDelays (FooClient default_config) =
      [Some (Num 30), Some (Num 60), Some (Num 120)]" .
  with n show ?thesis by simp
qed

text \<open>
  Claim C8. \<^const>\<open>numRetries\<close> returns \<^verbatim>\<open>config.maxRetries\<close> whenever it is defined; for
  the value 0 the list of retry delays is empty. Only when it is undefined does the
  default count apply: 3 from the prototype, or the count the instance or its class set.
\<close>

theorem numRetries_maxRetries:
  "(maxRetries (config this) = Some n \<longrightarrow> numRetries this = n) \<and>
   (maxRetries (config this) = Some 0 \<longrightarrow> numRetries this = 0 \<and> retryDelays this = []) \<and>
   (maxRetries (config this) = None \<and> defaultRetryCount this = None \<longrightarrow> numRetries this = 3) \<and>
   (maxRetries (config this) = None \<and> defaultRetryCount this = Some d \<longrightarrow> numRetries this = d)"
  by (simp add: retryDelays_eq)
     (simp add: numRetries_def this_defaultRetryCount_def prototype_defaultRetryCount_def)

theorem numRetries_maxRetries_witness:
  "numRetries (FooClient (default_config\<lparr>maxRetries := Some 0\<rparr>)) = 0 \<and>
   retryDelays (FooClient (default_config\<lparr>maxRetries := Some 0\<rparr>)) = [] \<and>
   numRetries (FooClient (default_config\<lparr>maxRetries := Some 30\<rparr>)) = 30 \<and>
   numRetries (FooClient default_config) = 3 \<and>
   numRetries ((FooClient default_config)\<lparr>defaultRetryCount := Some 13\<rparr>) = 13"
  using numRetries_maxRetries [of "FooClient (default_config\<lparr>maxRetries := Some 0\<rparr>)" 0 0]
    numRetries_maxRetries [of "FooClient (default_config\<lparr>maxRetries := Some 30\<rparr>)" 30 0]
    numRetries_maxRetries [of "FooClient default_config" 0 0]
    numRetries_maxRetries [of "(FooClient default_config)\<lparr>defaultRetryCount := Some 13\<rparr>" 0 13]
  by (simp add: FooClient_def default_config_def)

text \<open>
  Claim C2. \<^const>\<open>retryableError\<close> holds exactly for the code \<^verbatim>\<open>NetworkingError\<close>, the
  code \<^verbatim>\<open>ExpiredTokenException\<close>, the code
  \<^verbatim>\<open>ProvisionedThroughputExceededException\<close> and a status of 500 or more; any other
  code with a status from 200 to 499 is not retryable.
\<close>

theorem retryableError_iff:
  "(retryableError e \<longleftrightarrow>
      code e = Some ''NetworkingError'' \<or>
      code e = Some ''ExpiredTokenException'' \<or>
      code e = Some ''ProvisionedThroughputExceededException'' \<or>
      (\<exists>s. statusCode e = Some s \<and> s \<ge> 500)) \<and>
   (code e \<noteq> Some ''NetworkingError'' \<and> code e \<noteq> Some ''ExpiredTokenException'' \<and>
    code e \<noteq> Some ''ProvisionedThroughputExceededException'' \<and>
    statusCode e = Some s \<and> 200 \<le> s \<and> s < 500 \<longrightarrow> \<not> retryableError e)"
  by (auto simp: retryableError_def networkingError_def expiredCredentialsError_def
      throttledError_def split: option.splits)

theorem retryableError_iff_witness:
  "retryableError \<lparr>code = Some ''ProvisionedThroughputExceededException'', statusCode = Some 400\<rparr> \<and>
   retryableError \<lparr>code = Some ''ExpiredTokenException'', statusCode = Some 400\<rparr> \<and>
   retryableError \<lparr>code = Some ''NetworkingError'', statusCode = None\<rparr> \<and>
   retryableError \<lparr>code = Some ''RandomError'', statusCode = Some 505\<rparr> \<and>
   \<not> retryableError \<lparr>code = Some ''Error'', statusCode = Some 404\<rparr> \<and>
   \<not> retryableError \<lparr>code = Some ''Error'', statusCode = Some 200\<rparr>"
  using retryableError_iff [of "\<lparr>code = Some ''ProvisionedThroughputExceededException'', statusCode = Some 400\<rparr>" 400]
    retryableError_iff [of "\<lparr>code = Some ''ExpiredTokenException'', statusCode = Some 400\<rparr>" 400]
    retryableError_iff [of "\<lparr>code = Some ''NetworkingError'', statusCode = None\<rparr>" 0]
    retryableError_iff [of "\<lparr>code = Some ''RandomError'', statusCode = Some 505\<rparr>" 505]
    retryableError_iff [of "\<lparr>code = Some ''Error'', statusCode = Some 404\<rparr>" 404]
    retryableError_iff [of "\<lparr>code = Some ''Error'', statusCode = Some 200\<rparr>" 200]
  by simp

text \<open>
  Claim C6 as it is stated fails for the empty string as endpoint argument: it is given
  explicitly and does not win, the global endpoint of the descriptor is used.
\<close>

theorem setEndpoint_empty_argument:
  "client_endpoint
     (setEndpoint
        ((FooClient default_config)\<lparr>api := empty_api\<lparr>globalEndpoint := Some ''fooservice.amazonaws.com''\<rparr>\<rparr>)
        (Some '''')) =
     Some (Endpoint ''fooservice.amazonaws.com'' default_config)"
  by (simp add: setEndpoint_def truthy_def js_string_def FooClient_def empty_api_def)

text \<open>
  Claim C6, as amended. \<^const>\<open>setEndpoint\<close> takes the host from the endpoint argument
  when it is given and not empty; otherwise from the descriptor's \<^verbatim>\<open>globalEndpoint\<close>
  when it declares one that is not empty; otherwise the host is the prefix, the region
  and \<^verbatim>\<open>amazonaws.com\<close> joined by dots. An endpoint is made in every case and nothing
  else of the client changes.
\<close>

theorem setEndpoint_priority:
  "(truthy ep \<longrightarrow>
      client_endpoint (setEndpoint this ep) = Some (Endpoint (js_string ep) (config this))) \<and>
   (\<not> truthy ep \<and> truthy (globalEndpoint (api this)) \<longrightarrow>
      client_endpoint (setEndpoint this ep) =
        Some (Endpoint (js_string (globalEndpoint (api this))) (config this))) \<and>
   (\<not> truthy ep \<and> \<not> truthy (globalEndpoint (api this)) \<longrightarrow>
      client_endpoint (setEndpoint this ep) =
        Some (Endpoint (js_string (endpointPrefix (api this)) @ ''.'' @
                        js_string (region (config this)) @ ''.amazonaws.com'') (config this))) \<and>
   (\<exists>host. client_endpoint (setEndpoint this ep) = Some (Endpoint host (config this))) \<and>
   setEndpoint this ep = this\<lparr>client_endpoint := client_endpoint (setEndpoint this ep)\<rparr>"
  by (simp add: setEndpoint_def Let_def)

theorem setEndpoint_priority_witness:
  "client_endpoint (setEndpoint (FooClient default_config) (Some ''notfooservice.amazonaws.com'')) =
     Some (Endpoint ''notfooservice.amazonaws.com'' default_config) \<and>
   client_endpoint (setEndpoint
       ((FooClient default_config)\<lparr>api := (api (FooClient default_config))\<lparr>globalEndpoint := Some ''fooservice.amazonaws.com''\<rparr>\<rparr>)
       (Some ''notfooservice.amazonaws.com'')) =
     Some (Endpoint ''notfooservice.amazonaws.com'' default_config) \<and>
   client_endpoint (setEndpoint
       ((FooClient default_config)\<lparr>api := (api (FooClient default_config))\<lparr>globalEndpoint := Some ''fooservice.amazonaws.com''\<rparr>\<rparr>)
       None) =
     Some (Endpoint ''fooservice.amazonaws.com'' default_config) \<and>
   client_endpoint (setEndpoint (FooClient (default_config\<lparr>region := Some ''someregion''\<rparr>)) None) =
     Some (Endpoint ''fooservice.someregion.amazonaws.com'' (default_config\<lparr>region := Some ''someregion''\<rparr>))"
  using setEndpoint_priority [of "Some ''notfooservice.amazonaws.com''" "FooClient default_config"]
    setEndpoint_priority [of "Some ''notfooservice.amazonaws.com''"
      "(FooClient default_config)\<lparr>api := (api (FooClient default_config))\<lparr>globalEndpoint := Some ''fooservice.amazonaws.com''\<rparr>\<rparr>"]
    setEndpoint_priority [of None
      "(FooClient default_config)\<lparr>api := (api (FooClient default_config))\<lparr>globalEndpoint := Some ''fooservice.amazonaws.com''\<rparr>\<rparr>"]
    setEndpoint_priority [of None "FooClient (default_config\<lparr>region := Some ''someregion''\<rparr>)"]
  by (simp add: truthy_def js_string_def FooClient_def empty_api_def)

subsection \<open>Class loading\<close>











subsection \<open>Requests\<close>

lemma add_each_three:
  "add_each req [Some a, Some b, si] =
     req\<lparr>request_listeners := request_listeners req @ a @ b @ (case si of None \<Rightarrow> [] | Some l \<Rightarrow> l)\<rparr>"
  by (cases si) (simp_all add: addListeners_def)

lemma addAllRequestListeners_Inr:
  assumes "serviceInterface AWS this = Inr si"
  shows "addAllRequestListeners AWS this req =
     Inr (req\<lparr>request_listeners :=
               (let ls = request_listeners req @ events AWS @ Core AWS @
                         (case si of None \<Rightarrow> [] | Some l \<Rightarrow> l)
                in if paramValidation_off (config this)
                   then removeAll (''validate'', VALIDATE_PARAMETERS) ls else ls)\<rparr>)"
  using assms
  by (simp add: addAllRequestListeners_def add_each_three removeListener_def
      setupRequestListeners_def Let_def del: add_each.simps)

text \<open>
  Claim C9. For a client whose format selects a listener set or none,
  \<^const>\<open>makeRequest\<close> returns a request for the operation and the parameters. The
  request is sent exactly when there is a callback; a function in the place of the
  parameters is the callback, and the parameters are then the empty object. The
  callback is attached to the \<^verbatim>\<open>complete\<close> phase, after the listeners of the client,
  and is called with the error and the data of the response.
\<close>

theorem makeRequest_send:
  assumes "serviceInterface AWS this = Inr si"
  shows "makeRequest AWS this op ps callback =
     (let cb = (case ps of Function f \<Rightarrow> Some f | Params p \<Rightarrow> callback | NoParams \<Rightarrow> callback);
          ls = events AWS @ Core AWS @ (case si of None \<Rightarrow> [] | Some l \<Rightarrow> l);
          ls = (if paramValidation_off (config this)
                then removeAll (''validate'', VALIDATE_PARAMETERS) ls else ls)
      in Inr \<lparr>request_client = this,
              operation = op,
              params = (case ps of Function f \<Rightarrow> Some [] | Params p \<Rightarrow> Some p | NoParams \<Rightarrow> None),
              request_listeners =
                ls @ (case cb of None \<Rightarrow> [] | Some f \<Rightarrow> [(''complete'', CompleteCallback f)]),
              sent = (cb \<noteq> None)\<rparr>) \<and>
   run_handler (CompleteCallback f) resp = [Call f resp (resp_error resp) (resp_data resp)]"
  by (cases ps; cases callback)
     (simp_all add: makeRequest_def addAllRequestListeners_Inr [OF assms] Request_def on_def
       send_def Let_def)

text \<open>
  Claim C10 as it is stated fails for the empty string as format: it lies outside the
  four formats, and no error is raised.
\<close>

theorem serviceInterface_empty_format:
  "format (api ((FooClient default_config)\<lparr>api := empty_api\<lparr>format := Some ''''\<rparr>\<rparr>)) = Some '''' \<and>
   Some '''' \<notin> {Some ''query'', Some ''json'', Some ''rest-json'', Some ''rest-xml''} \<and>
   serviceInterface test_AWS ((FooClient default_config)\<lparr>api := empty_api\<lparr>format := Some ''''\<rparr>\<rparr>) =
     Inr None"
  by (simp add: serviceInterface_def FooClient_def empty_api_def truthy_def)

text \<open>
  Claim C10, as amended. A format that is not empty and not one of \<^verbatim>\<open>query\<close>,
  \<^verbatim>\<open>json\<close>, \<^verbatim>\<open>rest-json\<close>, \<^verbatim>\<open>rest-xml\<close> makes \<^const>\<open>serviceInterface\<close> raise
  the error that names it. Without a format, and with the empty string as format,
  \<^const>\<open>serviceInterface\<close> returns no listener set,
  \<^const>\<open>addAllRequestListeners\<close> attaches the global and the core listeners only, and
  \<^const>\<open>makeRequest\<close> builds its request.
\<close>

theorem serviceInterface_format:
  "(truthy (format (api this)) \<and>
    format (api this) \<notin> {Some ''query'', Some ''json'', Some ''rest-json'', Some ''rest-xml''} \<longrightarrow>
      serviceInterface AWS this =
        Inl (Error (''Invalid service `format'' @ [CHR 0x27] @ '' '' @
                    js_string (format (api this)) @ '' in API config''))) \<and>
   (\<not> truthy (format (api this)) \<longrightarrow>
      serviceInterface AWS this = Inr None \<and>
      addAllRequestListeners AWS this req =
        Inr (req\<lparr>request_listeners :=
                  (let ls = request_listeners req @ events AWS @ Core AWS
                   in if paramValidation_off (config this)
                      then removeAll (''validate'', VALIDATE_PARAMETERS) ls else ls)\<rparr>) \<and>
      (\<exists>r. makeRequest AWS this op ps callback = Inr r))"
proof -
  have none: "serviceInterface AWS this = Inr None" if "\<not> truthy (format (api this))"
    using that by (auto simp: serviceInterface_def truthy_def)
  have bad: "serviceInterface AWS this = Inl (invalid_format_error (format (api this)))"
    if "truthy (format (api this))"
      "format (api this) \<notin> {Some ''query'', Some ''json'', Some ''rest-json'', Some ''rest-xml''}"
    using that by (simp add: serviceInterface_def)
  have req: "\<exists>r. makeRequest AWS this op ps callback = Inr r" if "\<not> truthy (format (api this))"
    by (cases ps; cases callback)
       (simp_all add: makeRequest_def addAllRequestListeners_Inr [OF none [OF that]])
  have add: "addAllRequestListeners AWS this req =
        Inr (req\<lparr>request_listeners :=
                  (let ls = request_listeners req @ events AWS @ Core AWS
                   in if paramValidation_off (config this)
                      then removeAll (''validate'', VALIDATE_PARAMETERS) ls else ls)\<rparr>)"
    if "\<not> truthy (format (api this))"
    by (simp add: addAllRequestListeners_Inr [OF none [OF that]])
  from none bad req add show ?thesis
    by (simp add: invalid_format_error_def)
qed

theorem serviceInterface_format_witness:
  "serviceInterface test_AWS ((FooClient default_config)\<lparr>api := empty_api\<lparr>format := Some ''soap''\<rparr>\<rparr>) =
     Inl (Error (''Invalid service `format'' @ [CHR 0x27] @ '' soap in API config'')) \<and>
   serviceInterface test_AWS (FooClient default_config) = Inr None \<and>
   makeRequest test_AWS (FooClient default_config) ''operation'' NoParams None =
     Inr \<lparr>request_client = FooClient default_config, operation = ''operation'', params = None,
          request_listeners = [(''validate'', VALIDATE_PARAMETERS), (''send'', Handler ''SEND'')],
          sent = False\<rparr>"
proof -
  let ?bad = "(FooClient default_config)\<lparr>api := empty_api\<lparr>format := Some ''soap''\<rparr>\<rparr>"
  have f: "format (api ?bad) = Some ''soap''" "format (api (FooClient default_config)) = None"
    by (simp_all add: FooClient_def empty_api_def)
  have pv: "\<not> paramValidation_off (config (FooClient default_config))"
    by (simp add: paramValidation_off_def FooClient_def default_config_def)
  have l: "events test_AWS = []"
    "Core test_AWS = [(''validate'', VALIDATE_PARAMETERS), (''send'', Handler ''SEND'')]"
    by (simp_all add: test_AWS_def)
  from serviceInterface_format [of ?bad test_AWS]
  have w1: "serviceInterface test_AWS ?bad =
     Inl (Error (''Invalid service `format'' @ [CHR 0x27] @ '' soap in API config''))"
    by (simp add: f truthy_def js_string_def)
  from serviceInterface_format [of "FooClient default_config" test_AWS
      "Request (FooClient default_config) ''operation'' None" "''operation''" NoParams None]
  have w2: "serviceInterface test_AWS (FooClient default_config) = Inr None"
    and w3: "addAllRequestListeners test_AWS (FooClient default_config)
        (Request (FooClient default_config) ''operation'' None) =
      Inr \<lparr>request_client = FooClient default_config, operation = ''operation'', params = None,
          request_listeners = [(''validate'', VALIDATE_PARAMETERS), (''send'', Handler ''SEND'')],
          sent = False\<rparr>"
    by (simp_all add: f truthy_def pv l Request_def)
  from w3 have "makeRequest test_AWS (FooClient default_config) ''operation'' NoParams None =
     Inr \<lparr>request_client = FooClient default_config, operation = ''operation'', params = None,
          request_listeners = [(''validate'', VALIDATE_PARAMETERS), (''send'', Handler ''SEND'')],
          sent = False\<rparr>"
    by (simp add: makeRequest_def)
  with w1 w2 show ?thesis by (intro conjI)
qed

theorem makeRequest_send_witness:
  "makeRequest test_AWS (FooClient default_config) ''operation'' NoParams None =
     Inr \<lparr>request_client = FooClient default_config, operation = ''operation'', params = None,
          request_listeners = [(''validate'', VALIDATE_PARAMETERS), (''send'', Handler ''SEND'')],
          sent = False\<rparr> \<and>
   makeRequest test_AWS (FooClient default_config) ''operation'' (Function (Func ''done'')) None =
     Inr \<lparr>request_client = FooClient default_config, operation = ''operation'', params = Some [],
          request_listeners = [(''validate'', VALIDATE_PARAMETERS), (''send'', Handler ''SEND''),
                               (''complete'', CompleteCallback (Func ''done''))],
          sent = True\<rparr> \<and>
   makeRequest test_AWS (FooClient default_config) ''operation'' (Params [(''Key'', ''k'')])
       (Some (Func ''done'')) =
     Inr \<lparr>request_client = FooClient default_config, operation = ''operation'',
          params = Some [(''Key'', ''k'')],
          request_listeners = [(''validate'', VALIDATE_PARAMETERS), (''send'', Handler ''SEND''),
                               (''complete'', CompleteCallback (Func ''done''))],
          sent = True\<rparr>"
proof -
  have si: "serviceInterface test_AWS (FooClient default_config) = Inr None"
    by (simp add: serviceInterface_def FooClient_def empty_api_def truthy_def)
  have pv: "\<not> paramValidation_off (config (FooClient default_config))"
    by (simp add: paramValidation_off_def FooClient_def default_config_def)
  have l: "events test_AWS = []"
    "Core test_AWS = [(''validate'', VALIDATE_PARAMETERS), (''send'', Handler ''SEND'')]"
    by (simp_all add: test_AWS_def)
  note m = makeRequest_send [OF si]
  from m [of "''operation''" NoParams None] m [of "''operation''" "Function (Func ''done'')" None]
    m [of "''operation''" "Params [(''Key'', ''k'')]" "Some (Func ''done'')"]
  show ?thesis by (simp add: pv l)
qed

end
